theory Spec2Isabelle
  imports Main
begin

section \<open>The models of the to-do application (app/models.py)\<close>

text \<open>
  A shallow embedding of \<^verbatim>\<open>src/app/models.py\<close>: the validation helper, the three
  entities (User, TodoList, Todo), their setters and state changes, and the
  save/commit discipline of \<^verbatim>\<open>BaseModel\<close>.

  Conventions.
  \<^item> A Python value that a setter or constructor may receive is a \<open>pyval\<close>: \<open>None\<close>,
    an integer or a string. Strings are lists of characters whose codes are below 256.
  \<^item> A method that mutates \<open>self\<close> and may raise returns the pair of the exception it
    raised (if any) and the object as the call leaves it.
  \<^item> \<^verbatim>\<open>datetime.utcnow()\<close> is the argument \<open>now\<close> of the operation that reads the clock;
    a timestamp is a natural number.
  \<^item> Column names shared by several tables are prefixed: \<open>user_id\<close>, \<open>tl_id\<close>,
    \<open>todo_id\<close> are the three \<^verbatim>\<open>id\<close> columns, \<open>tl_creator\<close> and \<open>tl_created_at\<close> are
    \<^verbatim>\<open>TodoList.creator\<close> and \<^verbatim>\<open>TodoList.created_at\<close>.
\<close>

subsection \<open>Python values and exceptions\<close>

datatype exn = ValueError | TypeError | AttributeError | IntegrityError

datatype pyval = PyNone | PyInt int | PyStr string

text \<open>\<^verbatim>\<open>bool(v)\<close>: \<open>None\<close>, zero and the empty string are falsy.\<close>

fun py_bool :: "pyval \<Rightarrow> bool" where
  "py_bool PyNone = False"
| "py_bool (PyInt n) = (n \<noteq> 0)"
| "py_bool (PyStr s) = (s \<noteq> [])"

text \<open>\<^verbatim>\<open>len(v)\<close>: only a string has a length; \<open>None\<close> and integers raise TypeError.\<close>

fun py_len :: "pyval \<Rightarrow> exn + nat" where
  "py_len (PyStr s) = Inr (length s)"
| "py_len PyNone = Inl TypeError"
| "py_len (PyInt n) = Inl TypeError"

text \<open>\<^verbatim>\<open>a or b\<close>: the first operand when it is truthy, the second otherwise.\<close>

definition py_or :: "pyval \<Rightarrow> pyval \<Rightarrow> pyval" where
  "py_or a b = (if py_bool a then a else b)"

subsection \<open>check_length\<close>

text \<open>
  \<^verbatim>\<open>
  def check_length(attribute, length):
      try:
          return bool(attribute) and len(attribute) <= length
      except:
          return False
  \<close>
\<close>

definition check_length :: "pyval \<Rightarrow> nat \<Rightarrow> bool" where
  "check_length attribute len =
     (if \<not> py_bool attribute then False
      else (case py_len attribute of
              Inl e \<Rightarrow> False
            | Inr n \<Rightarrow> n \<le> len))"

subsection \<open>TodoList\<close>

record todolist =
  tl_id :: "nat option"
  title :: pyval
  tl_created_at :: "nat option"
  tl_creator :: pyval

text \<open>
  \<^verbatim>\<open>
  def __init__(self, title=None, creator=None, created_at=None):
      self.title = title or 'untitled'
      self.creator = creator
      self.created_at = created_at or datetime.utcnow()
  \<close>
  A missing argument is \<open>PyNone\<close> (\<open>None\<close> for the timestamp). A datetime is always
  truthy, so \<^verbatim>\<open>created_at or utcnow()\<close> reads the clock only for \<open>None\<close>.
\<close>

definition TodoList_init :: "pyval \<Rightarrow> pyval \<Rightarrow> nat option \<Rightarrow> nat \<Rightarrow> todolist" where
  "TodoList_init title0 creator created_at now =
     \<lparr> tl_id = None,
       title = py_or title0 (PyStr ''untitled''),
       tl_created_at = Some (case created_at of None \<Rightarrow> now | Some t \<Rightarrow> t),
       tl_creator = creator \<rparr>"

definition is_valid_title :: "pyval \<Rightarrow> bool" where
  "is_valid_title list_title = check_length list_title 128"

subsection \<open>The regular expressions\<close>

text \<open>
  \<^verbatim>\<open>
  EMAIL_REGEX = re.compile(r'^\S+@\S+\.\S+$')
  USERNAME_REGEX = re.compile(r'^\S+$')
  \<close>
  Both patterns are a sequence of items between \<^verbatim>\<open>^\<close> and \<^verbatim>\<open>$\<close>; an item is one
  character or one-or-more characters (\<^verbatim>\<open>+\<close>) of a class, the class being \<^verbatim>\<open>\S\<close> or a
  literal character.

  \<^verbatim>\<open>\s\<close> (on a str pattern) is Python's Unicode whitespace; below code 256 these are
  the codes 9 to 13, 28 to 32, 133 and 160. \<^verbatim>\<open>\S\<close> is its complement.
\<close>

definition is_space :: "char \<Rightarrow> bool" where
  "is_space c =
     (let n = (of_char c :: nat)
      in (9 \<le> n \<and> n \<le> 13) \<or> (28 \<le> n \<and> n \<le> 32) \<or> n = 133 \<or> n = 160)"

datatype atom = NonSpace | Lit char

datatype item = One atom | OneOrMore atom

type_synonym regex = "item list"

fun atom_ok :: "atom \<Rightarrow> char \<Rightarrow> bool" where
  "atom_ok NonSpace c = (\<not> is_space c)"
| "atom_ok (Lit l) c = (c = l)"

text \<open>
  \<open>rests items s\<close>: every way the items can match a prefix of \<open>s\<close>, each given by the
  rest of \<open>s\<close> that follows the matched prefix (the matcher backtracks over them).
\<close>

fun rests :: "regex \<Rightarrow> string \<Rightarrow> string list" where
  "rests [] s = [s]"
| "rests (One a # items) [] = []"
| "rests (One a # items) (c # cs) = (if atom_ok a c then rests items cs else [])"
| "rests (OneOrMore a # items) [] = []"
| "rests (OneOrMore a # items) (c # cs) =
     (if atom_ok a c then rests (OneOrMore a # items) cs @ rests items cs else [])"

text \<open>
  \<^verbatim>\<open>$\<close> (without \<^verbatim>\<open>re.MULTILINE\<close>) matches at the end of the string and also just
  before a newline that is the last character of the string.
\<close>

definition at_dollar :: "string \<Rightarrow> bool" where
  "at_dollar rest = (rest = [] \<or> rest = [CHR 0x0A])"

text \<open>
  \<^verbatim>\<open>bool(REGEX.match(v))\<close> for a pattern \<^verbatim>\<open>^items$\<close>: \<^verbatim>\<open>match\<close> anchors at the start;
  on a value that is not a string it raises TypeError.
\<close>

definition re_match :: "regex \<Rightarrow> pyval \<Rightarrow> exn + bool" where
  "re_match items v =
     (case v of
        PyStr s \<Rightarrow> Inr (list_ex at_dollar (rests items s))
      | PyNone \<Rightarrow> Inl TypeError
      | PyInt n \<Rightarrow> Inl TypeError)"

definition EMAIL_REGEX :: regex where
  "EMAIL_REGEX =
     [OneOrMore NonSpace, One (Lit (CHR ''@'')), OneOrMore NonSpace,
      One (Lit (CHR ''.'')), OneOrMore NonSpace]"

definition USERNAME_REGEX :: regex where
  "USERNAME_REGEX = [OneOrMore NonSpace]"

subsection \<open>User\<close>

text \<open>
  The columns of \<^verbatim>\<open>user\<close> that the modelled operations read or write
  (\<^verbatim>\<open>member_since\<close> and \<^verbatim>\<open>last_seen\<close> are left out). A column that holds no value is
  \<open>PyNone\<close> (\<open>None\<close> for the id). \<^verbatim>\<open>is_admin\<close> is left out as well: it is written only by
  \<^verbatim>\<open>promote_to_admin\<close>, which is not modelled.
\<close>

record user =
  user_id :: "nat option"
  username :: pyval
  email :: pyval
  password_hash :: pyval

text \<open>\<^verbatim>\<open>User()\<close>: a new object with no column set.\<close>

definition User_init :: user where
  "User_init =
     \<lparr> user_id = None, username = PyNone, email = PyNone, password_hash = PyNone \<rparr>"

text \<open>
  \<^verbatim>\<open>
  @name.setter
  def name(self, username):
      is_valid_length = check_length(username, 64)
      if not is_valid_length or not bool(USERNAME_REGEX.match(username)):
          raise ValueError('{} is not a valid username'.format(username))
      self.username = username
  \<close>
  \<^verbatim>\<open>or\<close> short-circuits: the pattern is tried only on a value of valid length.
\<close>

definition set_name :: "pyval \<Rightarrow> user \<Rightarrow> exn option \<times> user" where
  "set_name username0 self =
     (let is_valid_length = check_length username0 64 in
      if \<not> is_valid_length then (Some ValueError, self)
      else (case re_match USERNAME_REGEX username0 of
              Inl e \<Rightarrow> (Some e, self)
            | Inr m \<Rightarrow>
                if \<not> m then (Some ValueError, self)
                else (None, self\<lparr>username := username0\<rparr>)))"

text \<open>
  \<^verbatim>\<open>
  @emailaddress.setter
  def emailaddress(self, email):
      if not check_length(email, 64) or not bool(EMAIL_REGEX.match(email)):
          raise ValueError('{} is not a valid email address'.format(email))
      self.email = email
  \<close>
\<close>

definition set_emailaddress :: "pyval \<Rightarrow> user \<Rightarrow> exn option \<times> user" where
  "set_emailaddress email0 self =
     (if \<not> check_length email0 64 then (Some ValueError, self)
      else (case re_match EMAIL_REGEX email0 of
              Inl e \<Rightarrow> (Some e, self)
            | Inr m \<Rightarrow>
                if \<not> m then (Some ValueError, self)
                else (None, self\<lparr>email := email0\<rparr>)))"

text \<open>
  \<^verbatim>\<open>
  @property
  def password(self):
      raise AttributeError('password is not a readable attribute')
  \<close>
\<close>

definition get_password :: "user \<Rightarrow> exn + pyval" where
  "get_password self = Inl AttributeError"

text \<open>
  \<^verbatim>\<open>
  @password.setter
  def password(self, password):
      if not bool(password):
          raise ValueError('no password given')
      hashed_password = generate_password_hash(password)
      if not check_length(hashed_password, 128):
          raise ValueError('not a valid password, hash is too long')
      else:
          self.password_hash = hashed_password
  \<close>
  \<^verbatim>\<open>generate_password_hash\<close> is werkzeug's; it draws a fresh salt at every call. The
  model takes the function of this call (the salt drawn) as the argument \<open>gph\<close>: it
  returns a string or raises.
\<close>

definition set_password ::
  "(pyval \<Rightarrow> exn + string) \<Rightarrow> pyval \<Rightarrow> user \<Rightarrow> exn option \<times> user" where
  "set_password gph password self =
     (if \<not> py_bool password then (Some ValueError, self)
      else (case gph password of
              Inl e \<Rightarrow> (Some e, self)
            | Inr hashed_password \<Rightarrow>
                if \<not> check_length (PyStr hashed_password) 128 then (Some ValueError, self)
                else (None, self\<lparr>password_hash := PyStr hashed_password\<rparr>)))"

text \<open>
  \<^verbatim>\<open>werkzeug.security.check_password_hash(pwhash, password)\<close> starts by calling a str
  method on \<open>pwhash\<close> (\<^verbatim>\<open>pwhash.count("$")\<close>, in later releases \<^verbatim>\<open>pwhash.split("$", 2)\<close>),
  so a \<open>pwhash\<close> that is not a string raises AttributeError. What it computes on a
  string is the library's hashing scheme, the argument \<open>cph\<close>.
\<close>

definition check_password_hash ::
  "(string \<Rightarrow> pyval \<Rightarrow> exn + bool) \<Rightarrow> pyval \<Rightarrow> pyval \<Rightarrow> exn + bool" where
  "check_password_hash cph pwhash password =
     (case pwhash of
        PyStr h \<Rightarrow> cph h password
      | PyNone \<Rightarrow> Inl AttributeError
      | PyInt n \<Rightarrow> Inl AttributeError)"

text \<open>
  \<^verbatim>\<open>
  def verify_password(self, password):
      return check_password_hash(self.password_hash, password)
  \<close>
\<close>

definition verify_password ::
  "(string \<Rightarrow> pyval \<Rightarrow> exn + bool) \<Rightarrow> user \<Rightarrow> pyval \<Rightarrow> exn + bool" where
  "verify_password cph self password = check_password_hash cph (password_hash self) password"

subsection \<open>Todo\<close>

text \<open>
  \<^verbatim>\<open>is_finished = db.Column(db.Boolean, default=False)\<close> and
  \<^verbatim>\<open>finished_at = db.Column(db.DateTime, index=True, default=None)\<close>.
  A column default is applied when the row is inserted, not when the object is
  constructed: on a Python object \<open>is_finished\<close> reads \<open>None\<close> until it is assigned or
  the object has been written to the store. The record is therefore polymorphic in the
  type of that field: a Todo object is a \<open>bool option todo\<close>, a row of the table a
  \<open>bool todo\<close>.
\<close>

record 'f todo =
  todo_id :: "nat option"
  description :: pyval
  created_at :: "nat option"
  finished_at :: "nat option"
  is_finished :: 'f
  creator :: pyval
  todolist_id :: "nat option"

text \<open>
  \<^verbatim>\<open>
  def __init__(self, description, todolist_id, creator=None, created_at=None):
      self.description = description
      self.todolist_id = todolist_id
      self.creator = creator
      self.created_at = created_at or datetime.utcnow()
  \<close>
  \<^verbatim>\<open>__init__\<close> assigns neither \<open>is_finished\<close> nor \<open>finished_at\<close> (nor the id): all three read
  \<open>None\<close> on the new object.
\<close>

definition Todo_init ::
  "pyval \<Rightarrow> nat option \<Rightarrow> pyval \<Rightarrow> nat option \<Rightarrow> nat \<Rightarrow> bool option todo" where
  "Todo_init description0 todolist_id0 creator0 created_at0 now =
     \<lparr> todo_id = None,
       description = description0,
       created_at = Some (case created_at0 of None \<Rightarrow> now | Some t \<Rightarrow> t),
       finished_at = None,
       is_finished = None,
       creator = creator0,
       todolist_id = todolist_id0 \<rparr>"

text \<open>
  \<^verbatim>\<open>
  @property
  def status(self):
      return 'finished' if self.is_finished else 'open'
  \<close>
  The condition is the truth value of \<open>is_finished\<close>: \<open>None\<close> and \<open>False\<close> are falsy.
\<close>

definition status :: "bool option todo \<Rightarrow> string" where
  "status self = (if is_finished self = Some True then ''finished'' else ''open'')"

subsection \<open>The database session\<close>

text \<open>
  Modelled from the spec: \<^verbatim>\<open>db\<close> (created in \<^verbatim>\<open>app/__init__.py\<close>, imported by
  \<^verbatim>\<open>models.py\<close>) and the relational store behind it are not part of the source file.
  The store is "a conventional relational store" holding "three tables (user,
  todolist, todo)"; "username and email are globally unique"; a session has a
  lifecycle of "open, commit-or-rollback" per operation; save is an "upsert:
  create-or-update persistence operation keyed by identity". Accordingly:
  \<^item> the store is three lists of rows and the list of objects added to the session and
    not yet committed;
  \<^item> committing writes the added objects in order: an object without id is inserted
    under the next free id, an object with the id of an existing row replaces that row;
  \<^item> writing a user whose non-null username or email is already held by another row
    raises IntegrityError (the columns are declared \<^verbatim>\<open>unique=True\<close>); a failed commit
    writes nothing;
  \<^item> foreign keys are not enforced (the spec leaves lists and todos orphaned);
  \<^item> the store holds every value it is given: no column has a range or length limit
    of its own, so the only error a commit raises is IntegrityError;
  \<^item> a Todo is written as a row with its \<open>is_finished\<close> flag, the column default False
    standing in for a flag that is \<open>None\<close>, and after the commit the object reads the flag
    of its row (no operation of the models assigns \<open>None\<close> to the flag).
\<close>

datatype entity = UserE user | TodoListE todolist | TodoE "bool option todo"

record db =
  user_table :: "user list"
  todolist_table :: "todolist list"
  todo_table :: "bool todo list"
  session_new :: "entity list"

text \<open>Modelled from the spec: the row a Todo object is written as, and the object as it
  reads once its row is written.\<close>

definition todo_row :: "bool option todo \<Rightarrow> bool todo" where
  "todo_row t =
     \<lparr> todo_id = todo_id t,
       description = description t,
       created_at = created_at t,
       finished_at = finished_at t,
       is_finished = (case is_finished t of None \<Rightarrow> False | Some b \<Rightarrow> b),
       creator = creator t,
       todolist_id = todolist_id t \<rparr>"

definition todo_loaded :: "bool todo \<Rightarrow> bool option todo" where
  "todo_loaded r =
     \<lparr> todo_id = todo_id r,
       description = description r,
       created_at = created_at r,
       finished_at = finished_at r,
       is_finished = Some (is_finished r),
       creator = creator r,
       todolist_id = todolist_id r \<rparr>"

text \<open>Modelled from the spec: the id a new row gets (the integer primary key is
  assigned by the store), one more than the largest id of the table.\<close>

definition next_id :: "nat option list \<Rightarrow> nat" where
  "next_id ids = Suc (fold max (map (\<lambda>i. case i of None \<Rightarrow> 0 | Some n \<Rightarrow> n) ids) 0)"

text \<open>Modelled from the spec: the "create-or-update persistence operation keyed by
  identity" on one table; it returns the table and the object as written.\<close>

definition upsert ::
  "('r \<Rightarrow> nat option) \<Rightarrow> (nat option \<Rightarrow> 'r \<Rightarrow> 'r) \<Rightarrow> 'r list \<Rightarrow> 'r \<Rightarrow> 'r list \<times> 'r" where
  "upsert get_id set_id rows r =
     (case get_id r of
        None \<Rightarrow>
          (let r' = set_id (Some (next_id (map get_id rows))) r in (rows @ [r'], r'))
      | Some i \<Rightarrow>
          if list_ex (\<lambda>x. get_id x = Some i) rows
          then (map (\<lambda>x. if get_id x = Some i then r else x) rows, r)
          else (rows @ [r], r))"

text \<open>Modelled from the spec: "username and email are globally unique". Two values of
  a unique column clash when they are equal and not null; a row does not clash with
  itself.\<close>

definition clash :: "pyval \<Rightarrow> pyval \<Rightarrow> bool" where
  "clash a b = (a \<noteq> PyNone \<and> a = b)"

definition violates_unique :: "user list \<Rightarrow> user \<Rightarrow> bool" where
  "violates_unique rows u =
     list_ex (\<lambda>r. (user_id u = None \<or> user_id r \<noteq> user_id u)
                  \<and> (clash (username r) (username u) \<or> clash (email r) (email u))) rows"

text \<open>Modelled from the spec: writing one object, and writing the pending objects in
  the order they were added. Only the user table has a constraint that can fail.\<close>

fun flush_one :: "db \<Rightarrow> entity \<Rightarrow> exn + (db \<times> entity)" where
  "flush_one s (UserE u) =
     (if violates_unique (user_table s) u then Inl IntegrityError
      else (case upsert user_id (\<lambda>i r. r\<lparr>user_id := i\<rparr>) (user_table s) u of
              (rows, u') \<Rightarrow> Inr (s\<lparr>user_table := rows\<rparr>, UserE u')))"
| "flush_one s (TodoListE l) =
     (case upsert tl_id (\<lambda>i r. r\<lparr>tl_id := i\<rparr>) (todolist_table s) l of
        (rows, l') \<Rightarrow> Inr (s\<lparr>todolist_table := rows\<rparr>, TodoListE l'))"
| "flush_one s (TodoE t) =
     (case upsert todo_id (\<lambda>i r. r\<lparr>todo_id := i\<rparr>) (todo_table s) (todo_row t) of
        (rows, r') \<Rightarrow> Inr (s\<lparr>todo_table := rows\<rparr>, TodoE (todo_loaded r')))"

fun flush :: "db \<Rightarrow> entity list \<Rightarrow> exn + (db \<times> entity list)" where
  "flush s [] = Inr (s, [])"
| "flush s (e # es) =
     (case flush_one s e of
        Inl x \<Rightarrow> Inl x
      | Inr (s', e') \<Rightarrow>
          (case flush s' es of
             Inl x \<Rightarrow> Inl x
           | Inr (s'', es') \<Rightarrow> Inr (s'', e' # es')))"

text \<open>Modelled from the spec: \<^verbatim>\<open>db.session.add(obj)\<close>, \<^verbatim>\<open>db.session.commit()\<close> and
  \<^verbatim>\<open>db.session.rollback()\<close>. A commit that succeeds returns the store and the committed
  objects (with their ids); one that fails raises and writes nothing; a rollback
  drops the pending objects.\<close>

definition db_session_add :: "entity \<Rightarrow> db \<Rightarrow> db" where
  "db_session_add obj s = s\<lparr>session_new := session_new s @ [obj]\<rparr>"

definition db_session_commit :: "db \<Rightarrow> exn + (db \<times> entity list)" where
  "db_session_commit s =
     (case flush s (session_new s) of
        Inl x \<Rightarrow> Inl x
      | Inr (s', objs) \<Rightarrow> Inr (s'\<lparr>session_new := []\<rparr>, objs))"

definition db_session_rollback :: "db \<Rightarrow> db" where
  "db_session_rollback s = s\<lparr>session_new := []\<rparr>"

definition empty_db :: db where
  "empty_db = \<lparr> user_table = [], todolist_table = [], todo_table = [], session_new = [] \<rparr>"

subsection \<open>BaseModel\<close>

text \<open>
  \<^verbatim>\<open>
  def __commit(self):
      from sqlalchemy.exc import IntegrityError
      try:
          db.session.commit()
      except IntegrityError:
          db.session.rollback()
  \<close>
  Only IntegrityError is caught; any other exception leaves the method. The result
  is the exception raised (if any), the store, and the session's objects as the call
  leaves them (after a rollback: as they were added).
\<close>

definition commit :: "db \<Rightarrow> exn option \<times> db \<times> entity list" where
  "commit s =
     (case db_session_commit s of
        Inr (s', objs) \<Rightarrow> (None, s', objs)
      | Inl e \<Rightarrow>
          if e = IntegrityError then (None, db_session_rollback s, session_new s)
          else (Some e, s, session_new s))"

text \<open>
  \<^verbatim>\<open>
  def save(self):
      db.session.add(self)
      self.__commit()
      return self
  \<close>
  \<open>self\<close> is the object added last, so after the commit it is the last of the
  session's objects (that list is never empty here).
\<close>

definition save :: "entity \<Rightarrow> db \<Rightarrow> exn option \<times> entity \<times> db" where
  "save self s =
     (case commit (db_session_add self s) of
        (raised, s', objs) \<Rightarrow>
          (raised, (case rev objs of [] \<Rightarrow> self | x # xs \<Rightarrow> x), s'))"

definition save_user :: "user \<Rightarrow> db \<Rightarrow> exn option \<times> user \<times> db" where
  "save_user self s =
     (case save (UserE self) s of
        (raised, UserE u, s') \<Rightarrow> (raised, u, s')
      | (raised, TodoListE l, s') \<Rightarrow> (raised, self, s')
      | (raised, TodoE t, s') \<Rightarrow> (raised, self, s'))"

definition save_todo ::
  "bool option todo \<Rightarrow> db \<Rightarrow> exn option \<times> bool option todo \<times> db" where
  "save_todo self s =
     (case save (TodoE self) s of
        (raised, TodoE t, s') \<Rightarrow> (raised, t, s')
      | (raised, UserE u, s') \<Rightarrow> (raised, self, s')
      | (raised, TodoListE l, s') \<Rightarrow> (raised, self, s'))"

subsection \<open>Todo: finished and reopen\<close>

text \<open>
  \<^verbatim>\<open>
  def finished(self):
      self.is_finished = True
      self.finished_at = datetime.utcnow()
      self.save()

  def reopen(self):
      self.is_finished = False
      self.finished_at = None
      self.save()
  \<close>
\<close>

definition finished ::
  "nat \<Rightarrow> bool option todo \<Rightarrow> db \<Rightarrow> exn option \<times> bool option todo \<times> db" where
  "finished now self s =
     save_todo (self\<lparr>is_finished := Some True, finished_at := Some now\<rparr>) s"

definition reopen :: "bool option todo \<Rightarrow> db \<Rightarrow> exn option \<times> bool option todo \<times> db" where
  "reopen self s = save_todo (self\<lparr>is_finished := Some False, finished_at := None\<rparr>) s"

subsection \<open>TodoList: the counts\<close>

text \<open>
  \<^verbatim>\<open>todos = db.relationship('Todo', backref='todolist', lazy='dynamic')\<close>: a query for
  the rows of \<^verbatim>\<open>todo\<close> whose \<^verbatim>\<open>todolist_id\<close> is this list's id (no row for a list without
  id). The query reads the committed rows: between two operations of the models no
  object is pending, since every save ends in a commit or a rollback.
  \<^verbatim>\<open>
  def count_todos(self):
      return self.todos.order_by(None).count()
  def count_finished(self):
      return self.todos.filter_by(is_finished=True).count()
  def count_open(self):
      return self.todos.filter_by(is_finished=False).count()
  \<close>
\<close>

definition todos :: "todolist \<Rightarrow> db \<Rightarrow> bool todo list" where
  "todos self s =
     (case tl_id self of
        None \<Rightarrow> []
      | Some i \<Rightarrow> filter (\<lambda>t. todolist_id t = Some i) (todo_table s))"

definition count_todos :: "todolist \<Rightarrow> db \<Rightarrow> nat" where
  "count_todos self s = length (todos self s)"

definition count_finished :: "todolist \<Rightarrow> db \<Rightarrow> nat" where
  "count_finished self s = length (filter (\<lambda>t. is_finished t = True) (todos self s))"

definition count_open :: "todolist \<Rightarrow> db \<Rightarrow> nat" where
  "count_open self s = length (filter (\<lambda>t. is_finished t = False) (todos self s))"

section \<open>Properties\<close>

subsection \<open>Saving into the store\<close>

lemma flush_one_raises: "flush_one s e = Inl x \<Longrightarrow> x = IntegrityError"
  by (cases e) (auto split: if_splits prod.splits)

lemma flush_raises: "flush s es = Inl x \<Longrightarrow> x = IntegrityError"
  by (induction es arbitrary: s)
     (auto split: sum.splits prod.splits dest: flush_one_raises)

lemma flush_snoc:
  "flush s (es @ [e]) =
     (case flush s es of
        Inl x \<Rightarrow> Inl x
      | Inr (s', objs) \<Rightarrow>
          (case flush_one s' e of
             Inl x \<Rightarrow> Inl x
           | Inr (s'', e') \<Rightarrow> Inr (s'', objs @ [e'])))"
  by (induction es arbitrary: s) (auto split: sum.splits prod.splits)

lemma flush_one_todo:
  "flush_one s (TodoE t) = Inr (s', e') \<Longrightarrow>
     \<exists>i. e' = TodoE (t\<lparr>todo_id := i,
                is_finished := Some (case is_finished t of None \<Rightarrow> False | Some b \<Rightarrow> b)\<rparr>)"
  by (cases t)
     (auto simp: upsert_def Let_def todo_row_def todo_loaded_def
        split: option.splits if_splits)

text \<open>
  A save never raises in this store: either the commit is rejected and rolled back,
  leaving the object and the tables as they were, or the object is written behind the
  objects that were pending before it.
\<close>

lemma save_cases:
  "(db_session_commit (db_session_add self s) = Inl IntegrityError
      \<and> save self s = (None, self, s\<lparr>session_new := []\<rparr>))
   \<or> (\<exists>s0 objs s1 self'.
        flush (db_session_add self s) (session_new s) = Inr (s0, objs)
        \<and> flush_one s0 self = Inr (s1, self')
        \<and> save self s = (None, self', s1\<lparr>session_new := []\<rparr>))"
proof (cases "flush (db_session_add self s) (session_new s @ [self])")
  case (Inl x)
  then have "x = IntegrityError" by (rule flush_raises)
  with Inl show ?thesis
    by (simp add: save_def commit_def db_session_commit_def db_session_add_def
        db_session_rollback_def)
next
  case (Inr r)
  then show ?thesis
    by (auto simp: flush_snoc save_def commit_def db_session_commit_def db_session_add_def
        split: sum.splits prod.splits)
qed

lemma save_leaves_session_empty: "session_new (snd (snd (save self s))) = []"
  using save_cases [of self s] by auto

lemma save_rejected:
  "db_session_commit (db_session_add self s) = Inl IntegrityError \<Longrightarrow>
     save self s = (None, self, s\<lparr>session_new := []\<rparr>)"
  by (simp add: save_def commit_def db_session_add_def db_session_rollback_def)

lemma duplicate_username_rejected:
  assumes "session_new s = []" and "user_id u = None" and "username u = PyStr n"
      and "r \<in> set (user_table s)" and "username r = PyStr n"
  shows "db_session_commit (db_session_add (UserE u) s) = Inl IntegrityError"
proof -
  have "violates_unique (user_table s) u"
    using assms
    by (auto simp: violates_unique_def clash_def list_ex_iff intro!: bexI [of _ r])
  then show ?thesis
    using assms(1) by (simp add: db_session_commit_def db_session_add_def)
qed

text \<open>
  C1. For every entity: when the store rejects the commit of a save with a uniqueness
  violation (IntegrityError), save raises nothing, returns the object, and leaves the
  store rolled back: every table as before, nothing pending. In particular, saving a
  new User whose username is held by exactly one persisted row raises nothing,
  persists nothing, and exactly one row with that username exists afterwards.
\<close>

theorem save_uniqueness_violation:
  "(db_session_commit (db_session_add self s) = Inl IntegrityError \<longrightarrow>
      save self s = (None, self, s\<lparr>session_new := []\<rparr>))
   \<and> (session_new s = [] \<and> user_id u = None \<and> username u = PyStr n
        \<and> length (filter (\<lambda>r. username r = PyStr n) (user_table s)) = 1 \<longrightarrow>
      save_user u s = (None, u, s)
      \<and> length (filter (\<lambda>r. username r = PyStr n)
                  (user_table (snd (snd (save_user u s))))) = 1)"
proof (intro conjI impI)
  assume "db_session_commit (db_session_add self s) = Inl IntegrityError"
  then show "save self s = (None, self, s\<lparr>session_new := []\<rparr>)" by (rule save_rejected)
next
  assume a: "session_new s = [] \<and> user_id u = None \<and> username u = PyStr n
        \<and> length (filter (\<lambda>r. username r = PyStr n) (user_table s)) = 1"
  then have "filter (\<lambda>r. username r = PyStr n) (user_table s) \<noteq> []" by auto
  then obtain r where r: "r \<in> set (user_table s)" "username r = PyStr n"
    by (auto simp: filter_empty_conv)
  from a r have "db_session_commit (db_session_add (UserE u) s) = Inl IntegrityError"
    by (intro duplicate_username_rejected) auto
  then have "save (UserE u) s = (None, UserE u, s\<lparr>session_new := []\<rparr>)"
    by (rule save_rejected)
  moreover have "s\<lparr>session_new := []\<rparr> = s" using a by (cases s) simp
  ultimately show sv: "save_user u s = (None, u, s)" by (simp add: save_user_def)
  show "length (filter (\<lambda>r. username r = PyStr n)
                  (user_table (snd (snd (save_user u s))))) = 1"
    using a by (simp add: sv)
qed

text \<open>
  The scenario of the specification: the first save of a user named alice into the
  empty store persists her under id 1; the save of a second user of that name raises
  nothing and leaves the one row.
\<close>

theorem save_uniqueness_violation_witness:
  "save_user \<lparr>user_id = None, username = PyStr ''alice'', email = PyStr ''a@x.org'',
              password_hash = PyNone\<rparr> empty_db
     = (None,
        \<lparr>user_id = Some 1, username = PyStr ''alice'', email = PyStr ''a@x.org'',
          password_hash = PyNone\<rparr>,
        \<lparr>user_table = [\<lparr>user_id = Some 1, username = PyStr ''alice'',
                         email = PyStr ''a@x.org'', password_hash = PyNone\<rparr>],
          todolist_table = [], todo_table = [], session_new = []\<rparr>)
   \<and> save_user \<lparr>user_id = None, username = PyStr ''alice'', email = PyStr ''b@x.org'',
                password_hash = PyNone\<rparr>
        \<lparr>user_table = [\<lparr>user_id = Some 1, username = PyStr ''alice'',
                         email = PyStr ''a@x.org'', password_hash = PyNone\<rparr>],
          todolist_table = [], todo_table = [], session_new = []\<rparr>
     = (None,
        \<lparr>user_id = None, username = PyStr ''alice'', email = PyStr ''b@x.org'',
          password_hash = PyNone\<rparr>,
        \<lparr>user_table = [\<lparr>user_id = Some 1, username = PyStr ''alice'',
                         email = PyStr ''a@x.org'', password_hash = PyNone\<rparr>],
          todolist_table = [], todo_table = [], session_new = []\<rparr>)
   \<and> save (UserE \<lparr>user_id = None, username = PyStr ''alice'', email = PyStr ''b@x.org'',
                   password_hash = PyNone\<rparr>)
        \<lparr>user_table = [\<lparr>user_id = Some 1, username = PyStr ''alice'',
                         email = PyStr ''a@x.org'', password_hash = PyNone\<rparr>],
          todolist_table = [], todo_table = [], session_new = []\<rparr>
     = (None,
        UserE \<lparr>user_id = None, username = PyStr ''alice'', email = PyStr ''b@x.org'',
               password_hash = PyNone\<rparr>,
        \<lparr>user_table = [\<lparr>user_id = Some 1, username = PyStr ''alice'',
                         email = PyStr ''a@x.org'', password_hash = PyNone\<rparr>],
          todolist_table = [], todo_table = [], session_new = []\<rparr>)"
proof -
  let ?a = "\<lparr>user_id = Some 1, username = PyStr ''alice'', email = PyStr ''a@x.org'',
             password_hash = PyNone\<rparr>"
  let ?b = "\<lparr>user_id = None, username = PyStr ''alice'', email = PyStr ''b@x.org'',
             password_hash = PyNone\<rparr>"
  let ?s = "\<lparr>user_table = [?a], todolist_table = [], todo_table = [], session_new = []\<rparr>"
  have first: "save_user (?a\<lparr>user_id := None\<rparr>) empty_db = (None, ?a, ?s)"
    by (simp add: save_user_def save_def commit_def db_session_commit_def
        db_session_add_def empty_db_def violates_unique_def upsert_def next_id_def Let_def)
  have hyp: "session_new ?s = [] \<and> user_id ?b = None \<and> username ?b = PyStr ''alice''
      \<and> length (filter (\<lambda>r. username r = PyStr ''alice'') (user_table ?s)) = 1"
    by simp
  have rejected: "db_session_commit (db_session_add (UserE ?b) ?s) = Inl IntegrityError"
    by (simp add: db_session_commit_def db_session_add_def violates_unique_def clash_def)
  from save_uniqueness_violation [of "UserE ?b" ?s ?b "''alice''"] hyp rejected
  have "save_user ?b ?s = (None, ?b, ?s)"
    and "save (UserE ?b) ?s = (None, UserE ?b, ?s\<lparr>session_new := []\<rparr>)" by blast+
  with first show ?thesis by simp
qed

subsection \<open>The counts of a TodoList\<close>

text \<open>
  C2. For a TodoList with N associated rows of todo (the rows whose todolist_id is the
  list's id), K of them finished: count_todos is N, count_finished is K, count_open is
  N - K, and count_open + count_finished = count_todos.
\<close>

theorem todolist_counts:
  assumes N: "card {k. k < length (todo_table s) \<and> tl_id l \<noteq> None
                    \<and> todolist_id (todo_table s ! k) = tl_id l} = N"
      and K: "card {k. k < length (todo_table s) \<and> tl_id l \<noteq> None
                    \<and> todolist_id (todo_table s ! k) = tl_id l
                    \<and> is_finished (todo_table s ! k)} = K"
  shows "count_todos l s = N \<and> count_finished l s = K \<and> count_open l s = N - K
         \<and> count_open l s + count_finished l s = count_todos l s"
proof -
  have n: "count_todos l s = N"
    using N
    by (cases "tl_id l") (auto simp: count_todos_def todos_def length_filter_conv_card)
  have k: "count_finished l s = K"
    using K
    by (cases "tl_id l")
       (auto simp: count_finished_def todos_def length_filter_conv_card conj_commute
          conj_left_commute)
  have sum: "count_open l s + count_finished l s = count_todos l s"
    unfolding count_open_def count_finished_def count_todos_def
    using sum_length_filter_compl [of is_finished "todos l s"] by simp
  from n k sum show ?thesis by simp
qed

theorem todolist_counts_witness:
  "count_todos \<lparr>tl_id = Some 1, title = PyStr ''home'', tl_created_at = Some 0,
                 tl_creator = PyNone\<rparr>
     \<lparr>user_table = [], todolist_table = [],
       todo_table =
         [\<lparr>todo_id = Some 1, description = PyStr ''a'', created_at = Some 1,
            finished_at = Some 4, is_finished = True, creator = PyNone,
            todolist_id = Some 1\<rparr>,
          \<lparr>todo_id = Some 2, description = PyStr ''b'', created_at = Some 2,
            finished_at = None, is_finished = False, creator = PyNone,
            todolist_id = Some 2\<rparr>,
          \<lparr>todo_id = Some 3, description = PyStr ''c'', created_at = Some 3,
            finished_at = None, is_finished = False, creator = PyNone,
            todolist_id = Some 1\<rparr>],
       session_new = []\<rparr> = 2
   \<and> count_finished \<lparr>tl_id = Some 1, title = PyStr ''home'', tl_created_at = Some 0,
                      tl_creator = PyNone\<rparr>
     \<lparr>user_table = [], todolist_table = [],
       todo_table =
         [\<lparr>todo_id = Some 1, description = PyStr ''a'', created_at = Some 1,
            finished_at = Some 4, is_finished = True, creator = PyNone,
            todolist_id = Some 1\<rparr>,
          \<lparr>todo_id = Some 2, description = PyStr ''b'', created_at = Some 2,
            finished_at = None, is_finished = False, creator = PyNone,
            todolist_id = Some 2\<rparr>,
          \<lparr>todo_id = Some 3, description = PyStr ''c'', created_at = Some 3,
            finished_at = None, is_finished = False, creator = PyNone,
            todolist_id = Some 1\<rparr>],
       session_new = []\<rparr> = 1
   \<and> count_open \<lparr>tl_id = Some 1, title = PyStr ''home'', tl_created_at = Some 0,
                  tl_creator = PyNone\<rparr>
     \<lparr>user_table = [], todolist_table = [],
       todo_table =
         [\<lparr>todo_id = Some 1, description = PyStr ''a'', created_at = Some 1,
            finished_at = Some 4, is_finished = True, creator = PyNone,
            todolist_id = Some 1\<rparr>,
          \<lparr>todo_id = Some 2, description = PyStr ''b'', created_at = Some 2,
            finished_at = None, is_finished = False, creator = PyNone,
            todolist_id = Some 2\<rparr>,
          \<lparr>todo_id = Some 3, description = PyStr ''c'', created_at = Some 3,
            finished_at = None, is_finished = False, creator = PyNone,
            todolist_id = Some 1\<rparr>],
       session_new = []\<rparr> = 1"
proof -
  let ?l = "\<lparr>tl_id = Some 1, title = PyStr ''home'', tl_created_at = Some 0,
             tl_creator = PyNone\<rparr>"
  let ?rows =
    "[\<lparr>todo_id = Some 1, description = PyStr ''a'', created_at = Some 1,
       finished_at = Some 4, is_finished = True, creator = PyNone,
       todolist_id = Some 1\<rparr>,
      \<lparr>todo_id = Some 2, description = PyStr ''b'', created_at = Some 2,
       finished_at = None, is_finished = False, creator = PyNone,
       todolist_id = Some 2\<rparr>,
      \<lparr>todo_id = Some 3, description = PyStr ''c'', created_at = Some 3,
       finished_at = None, is_finished = False, creator = PyNone,
       todolist_id = Some 1\<rparr>]"
  let ?s = "\<lparr>user_table = [], todolist_table = [], todo_table = ?rows, session_new = []\<rparr>"
  have "card {k. k < length ?rows \<and> todolist_id (?rows ! k) = Some (1::nat)}
        = length (filter (\<lambda>t. todolist_id t = Some 1) ?rows)"
    by (simp only: length_filter_conv_card)
  then have N: "card {k. k < length (todo_table ?s) \<and> tl_id ?l \<noteq> None
                    \<and> todolist_id (todo_table ?s ! k) = tl_id ?l} = 2"
    by simp
  have "card {k. k < length ?rows \<and> todolist_id (?rows ! k) = Some (1::nat)
                 \<and> is_finished (?rows ! k)}
        = length (filter (\<lambda>t. todolist_id t = Some 1 \<and> is_finished t) ?rows)"
    by (simp only: length_filter_conv_card)
  then have K: "card {k. k < length (todo_table ?s) \<and> tl_id ?l \<noteq> None
                    \<and> todolist_id (todo_table ?s ! k) = tl_id ?l
                    \<and> is_finished (todo_table ?s ! k)} = 1"
    by simp
  from todolist_counts [OF N K] show ?thesis by simp
qed

subsection \<open>The state of a Todo\<close>

text \<open>
  The object a save returns: the todo itself when the commit was rolled back, and
  otherwise the todo with its id and with the flag of its row, which is the todo's own
  flag unless that was \<open>None\<close>.
\<close>

lemma save_todo_result:
  "\<exists>i f s'. save_todo t s = (None, t\<lparr>todo_id := i, is_finished := f\<rparr>, s')
     \<and> (f = is_finished t \<or> (is_finished t = None \<and> f = Some False))"
proof -
  from save_cases [of "TodoE t" s] show ?thesis
  proof
    assume "db_session_commit (db_session_add (TodoE t) s) = Inl IntegrityError
      \<and> save (TodoE t) s = (None, TodoE t, s\<lparr>session_new := []\<rparr>)"
    then have "save_todo t s
        = (None, t\<lparr>todo_id := todo_id t, is_finished := is_finished t\<rparr>,
           s\<lparr>session_new := []\<rparr>)"
      by (simp add: save_todo_def)
    then show ?thesis by blast
  next
    assume "\<exists>s0 objs s1 self'.
        flush (db_session_add (TodoE t) s) (session_new s) = Inr (s0, objs)
        \<and> flush_one s0 (TodoE t) = Inr (s1, self')
        \<and> save (TodoE t) s = (None, self', s1\<lparr>session_new := []\<rparr>)"
    then obtain s0 s1 self' where f: "flush_one s0 (TodoE t) = Inr (s1, self')"
      and sv: "save (TodoE t) s = (None, self', s1\<lparr>session_new := []\<rparr>)" by blast
    let ?f = "Some (case is_finished t of None \<Rightarrow> False | Some b \<Rightarrow> b)"
    from flush_one_todo [OF f] obtain i
      where "self' = TodoE (t\<lparr>todo_id := i, is_finished := ?f\<rparr>)" ..
    with sv have "save_todo t s
        = (None, t\<lparr>todo_id := i, is_finished := ?f\<rparr>, s1\<lparr>session_new := []\<rparr>)"
      by (simp add: save_todo_def)
    moreover have "?f = is_finished t \<or> (is_finished t = None \<and> ?f = Some False)"
      by (cases "is_finished t") simp_all
    ultimately show ?thesis by blast
  qed
qed

lemma finished_result:
  "\<exists>i s'. finished now t s =
     (None, t\<lparr>is_finished := Some True, finished_at := Some now, todo_id := i\<rparr>, s')"
proof -
  let ?t = "t\<lparr>is_finished := Some True, finished_at := Some now\<rparr>"
  from save_todo_result [of ?t s] obtain i f s'
    where "save_todo ?t s = (None, ?t\<lparr>todo_id := i, is_finished := f\<rparr>, s')"
      and "f = is_finished ?t \<or> (is_finished ?t = None \<and> f = Some False)" by blast
  then have "finished now t s
      = (None, t\<lparr>is_finished := Some True, finished_at := Some now, todo_id := i\<rparr>, s')"
    by (simp add: finished_def)
  then show ?thesis by blast
qed

lemma reopen_result:
  "\<exists>i s'. reopen t s =
     (None, t\<lparr>is_finished := Some False, finished_at := None, todo_id := i\<rparr>, s')"
proof -
  let ?t = "t\<lparr>is_finished := Some False, finished_at := None\<rparr>"
  from save_todo_result [of ?t s] obtain i f s'
    where "save_todo ?t s = (None, ?t\<lparr>todo_id := i, is_finished := f\<rparr>, s')"
      and "f = is_finished ?t \<or> (is_finished ?t = None \<and> f = Some False)" by blast
  then have "reopen t s
      = (None, t\<lparr>is_finished := Some False, finished_at := None, todo_id := i\<rparr>, s')"
    by (simp add: reopen_def)
  then show ?thesis by blast
qed

text \<open>
  C3, as stated, fails in one place: a newly constructed Todo does not have
  is_finished false. The constructor does not assign the attribute and the column
  default is applied only when the row is inserted, so it reads None.
\<close>

theorem Todo_init_is_finished_counterexample:
  "is_finished (Todo_init (PyStr ''buy milk'') (Some 1) PyNone None 0) \<noteq> Some False"
  by (simp add: Todo_init_def)

text \<open>
  C3, amended: the invariant "finished_at is set if and only if is_finished is true"
  holds of a newly constructed Todo, whose is_finished is unset (None, which is not
  true) and whose finished_at is null. It is preserved by every operation: the Todo
  that finished leaves has is_finished true and finished_at set, the Todo that reopen
  leaves has is_finished false and finished_at null, whatever the Todo was before; the
  Todo that save leaves has finished_at as it was and is_finished as it was, or false
  where it was unset, so the invariant holds after save exactly when it held before.
  Each holds of the Todo the operation leaves, whatever it raises.
\<close>

theorem todo_finished_at_iff_is_finished:
  "((finished_at (Todo_init d l c at now) \<noteq> None)
      = (is_finished (Todo_init d l c at now) = Some True))
   \<and> is_finished (Todo_init d l c at now) = None
   \<and> finished_at (Todo_init d l c at now) = None
   \<and> (\<exists>r t' s'. finished now t s = (r, t', s')
         \<and> ((finished_at t' \<noteq> None) = (is_finished t' = Some True))
         \<and> is_finished t' = Some True \<and> finished_at t' \<noteq> None)
   \<and> (\<exists>r t' s'. reopen t s = (r, t', s')
         \<and> ((finished_at t' \<noteq> None) = (is_finished t' = Some True))
         \<and> is_finished t' = Some False \<and> finished_at t' = None)
   \<and> (\<exists>r t' s'. save_todo t s = (r, t', s')
         \<and> finished_at t' = finished_at t
         \<and> (is_finished t' = is_finished t \<or> (is_finished t = None \<and> is_finished t' = Some False))
         \<and> ((finished_at t' \<noteq> None) = (is_finished t' = Some True))
             = ((finished_at t \<noteq> None) = (is_finished t = Some True)))"
proof -
  obtain i s1 where
    "finished now t s =
       (None, t\<lparr>is_finished := Some True, finished_at := Some now, todo_id := i\<rparr>, s1)"
    using finished_result by blast
  moreover obtain j s2 where
    "reopen t s =
       (None, t\<lparr>is_finished := Some False, finished_at := None, todo_id := j\<rparr>, s2)"
    using reopen_result by blast
  moreover obtain k f s3 where "save_todo t s = (None, t\<lparr>todo_id := k, is_finished := f\<rparr>, s3)"
    and "f = is_finished t \<or> (is_finished t = None \<and> f = Some False)"
    using save_todo_result by blast
  ultimately show ?thesis
    by (auto simp: Todo_init_def)
qed

text \<open>
  C4. finished raises nothing and leaves is_finished true and finished_at the current
  time; a following reopen raises nothing and leaves is_finished false and finished_at
  null. Neither has a guard: from any Todo, open or finished, reopen raises nothing and
  clears both, and finished raises nothing and sets both, also when called a second
  time. status is "finished" exactly when is_finished is true and "open" otherwise; a
  new Todo reads "open".
\<close>

theorem todo_finished_reopen_status:
  "(\<exists>t1 s1 t2 s2.
      finished now t s = (None, t1, s1)
      \<and> is_finished t1 = Some True \<and> finished_at t1 = Some now \<and> status t1 = ''finished''
      \<and> reopen t1 s1 = (None, t2, s2)
      \<and> is_finished t2 = Some False \<and> finished_at t2 = None \<and> status t2 = ''open'')
   \<and> (\<exists>t' s'. reopen t s = (None, t', s')
         \<and> is_finished t' = Some False \<and> finished_at t' = None \<and> status t' = ''open'')
   \<and> (\<exists>t1 s1 t2 s2.
         finished now t s = (None, t1, s1) \<and> finished later t1 s1 = (None, t2, s2)
         \<and> is_finished t2 = Some True \<and> finished_at t2 = Some later
         \<and> status t2 = ''finished'')
   \<and> (\<exists>t1 s1 t2 s2.
         reopen t s = (None, t1, s1) \<and> reopen t1 s1 = (None, t2, s2)
         \<and> is_finished t2 = Some False \<and> finished_at t2 = None \<and> status t2 = ''open'')
   \<and> (status t = ''finished'') = (is_finished t = Some True)
   \<and> (status t = ''open'') = (is_finished t \<noteq> Some True)
   \<and> status (Todo_init (PyStr ''buy milk'') (Some 1) PyNone None now) = ''open''"
proof -
  obtain i s1 where f:
    "finished now t s =
       (None, t\<lparr>is_finished := Some True, finished_at := Some now, todo_id := i\<rparr>, s1)"
    using finished_result by blast
  let ?t1 = "t\<lparr>is_finished := Some True, finished_at := Some now, todo_id := i\<rparr>"
  obtain j s2 where r:
    "reopen ?t1 s1 =
       (None, ?t1\<lparr>is_finished := Some False, finished_at := None, todo_id := j\<rparr>, s2)"
    using reopen_result by blast
  obtain k s3 where ff:
    "finished later ?t1 s1 =
       (None, ?t1\<lparr>is_finished := Some True, finished_at := Some later, todo_id := k\<rparr>, s3)"
    using finished_result by blast
  obtain m s4 where r0:
    "reopen t s =
       (None, t\<lparr>is_finished := Some False, finished_at := None, todo_id := m\<rparr>, s4)"
    using reopen_result by blast
  let ?t4 = "t\<lparr>is_finished := Some False, finished_at := None, todo_id := m\<rparr>"
  obtain n s5 where rr:
    "reopen ?t4 s4 =
       (None, ?t4\<lparr>is_finished := Some False, finished_at := None, todo_id := n\<rparr>, s5)"
    using reopen_result by blast
  from f r have 1: "\<exists>t1 s1 t2 s2.
      finished now t s = (None, t1, s1)
      \<and> is_finished t1 = Some True \<and> finished_at t1 = Some now \<and> status t1 = ''finished''
      \<and> reopen t1 s1 = (None, t2, s2)
      \<and> is_finished t2 = Some False \<and> finished_at t2 = None \<and> status t2 = ''open''"
    by (simp add: status_def)
  from r0 have 2: "\<exists>t' s'. reopen t s = (None, t', s')
         \<and> is_finished t' = Some False \<and> finished_at t' = None \<and> status t' = ''open''"
    by (simp add: status_def)
  from f ff have 3: "\<exists>t1 s1 t2 s2.
         finished now t s = (None, t1, s1) \<and> finished later t1 s1 = (None, t2, s2)
         \<and> is_finished t2 = Some True \<and> finished_at t2 = Some later
         \<and> status t2 = ''finished''"
    by (simp add: status_def)
  from r0 rr have 4: "\<exists>t1 s1 t2 s2.
         reopen t s = (None, t1, s1) \<and> reopen t1 s1 = (None, t2, s2)
         \<and> is_finished t2 = Some False \<and> finished_at t2 = None \<and> status t2 = ''open''"
    by (simp add: status_def)
  have 5: "(status t = ''finished'') = (is_finished t = Some True)
      \<and> (status t = ''open'') = (is_finished t \<noteq> Some True)
      \<and> status (Todo_init (PyStr ''buy milk'') (Some 1) PyNone None now) = ''open''"
    by (simp add: status_def Todo_init_def)
  from 1 2 3 4 5 show ?thesis by blast
qed

subsection \<open>The password of a User\<close>

text \<open>
  C6. Setting a falsy password (None, the empty string) raises ValueError; for a
  truthy password whose hash is longer than 128 characters it raises ValueError; for a
  truthy password with a non-empty hash of at most 128 characters it returns with
  password_hash set to that hash and every other column as before, so only the hash
  is stored. Whenever it raises, the user is left as it was. Reading the password
  attribute raises (AttributeError) for every user.
\<close>

theorem set_password_outcomes:
  "(\<not> py_bool p \<longrightarrow> set_password gph p u = (Some ValueError, u))
   \<and> (py_bool p \<and> gph p = Inr h \<and> 128 < length h \<longrightarrow>
        set_password gph p u = (Some ValueError, u))
   \<and> (py_bool p \<and> gph p = Inr h \<and> h \<noteq> [] \<and> length h \<le> 128 \<longrightarrow>
        set_password gph p u = (None, u\<lparr>password_hash := PyStr h\<rparr>))
   \<and> (fst (set_password gph p u) \<noteq> None \<longrightarrow> snd (set_password gph p u) = u)
   \<and> get_password u = Inl AttributeError"
  by (auto simp: set_password_def check_length_def get_password_def split: sum.splits)

theorem set_password_outcomes_witness:
  "set_password (\<lambda>p. Inr ''pbkdf2:sha256$salt$0f3a'') (PyStr []) User_init
     = (Some ValueError, User_init)
   \<and> set_password (\<lambda>p. Inr ''pbkdf2:sha256$salt$0f3a'') PyNone User_init
     = (Some ValueError, User_init)
   \<and> set_password (\<lambda>p. Inr (replicate 129 (CHR ''f''))) (PyStr ''secret'') User_init
     = (Some ValueError, User_init)
   \<and> set_password (\<lambda>p. Inr ''pbkdf2:sha256$salt$0f3a'') (PyStr ''secret'') User_init
     = (None, User_init\<lparr>password_hash := PyStr ''pbkdf2:sha256$salt$0f3a''\<rparr>)
   \<and> snd (set_password (\<lambda>p. Inl TypeError) (PyInt 5) User_init) = User_init
   \<and> get_password User_init = Inl AttributeError"
proof -
  let ?g = "\<lambda>p :: pyval. (Inr ''pbkdf2:sha256$salt$0f3a'' :: exn + string)"
  let ?long = "\<lambda>p :: pyval. (Inr (replicate 129 (CHR ''f'')) :: exn + string)"
  let ?bad = "\<lambda>p :: pyval. (Inl TypeError :: exn + string)"
  have e: "\<not> py_bool (PyStr [])" and n: "\<not> py_bool PyNone" by simp_all
  have l: "py_bool (PyStr ''secret'') \<and> ?long (PyStr ''secret'') = Inr (replicate 129 (CHR ''f''))
      \<and> 128 < length (replicate 129 (CHR ''f''))" by simp
  have g: "py_bool (PyStr ''secret'') \<and> ?g (PyStr ''secret'') = Inr ''pbkdf2:sha256$salt$0f3a''
      \<and> ''pbkdf2:sha256$salt$0f3a'' \<noteq> [] \<and> length ''pbkdf2:sha256$salt$0f3a'' \<le> 128" by simp
  have b: "fst (set_password ?bad (PyInt 5) User_init) \<noteq> None"
    by (simp add: set_password_def)
  from set_password_outcomes [of "PyStr []" ?g User_init "[]"] e
  have 1: "set_password ?g (PyStr []) User_init = (Some ValueError, User_init)" by blast
  from set_password_outcomes [of PyNone ?g User_init "[]"] n
  have 2: "set_password ?g PyNone User_init = (Some ValueError, User_init)" by blast
  from set_password_outcomes [of "PyStr ''secret''" ?long User_init "replicate 129 (CHR ''f'')"] l
  have 3: "set_password ?long (PyStr ''secret'') User_init = (Some ValueError, User_init)"
    by blast
  from set_password_outcomes [of "PyStr ''secret''" ?g User_init "''pbkdf2:sha256$salt$0f3a''"] g
  have 4: "set_password ?g (PyStr ''secret'') User_init
      = (None, User_init\<lparr>password_hash := PyStr ''pbkdf2:sha256$salt$0f3a''\<rparr>)"
    by blast
  from set_password_outcomes [of "PyInt 5" ?bad User_init "[]"] b
  have 5: "snd (set_password ?bad (PyInt 5) User_init) = User_init
      \<and> get_password User_init = Inl AttributeError" by blast
  from 1 2 3 4 5 show ?thesis by simp
qed

text \<open>
  C10. For a User whose password_hash is null, verify_password raises (AttributeError)
  for every candidate; it does not return false.
\<close>

theorem verify_password_without_hash:
  "password_hash u = PyNone \<Longrightarrow>
     verify_password cph u q = Inl AttributeError \<and> verify_password cph u q \<noteq> Inr False"
  by (simp add: verify_password_def check_password_hash_def)

theorem verify_password_without_hash_witness:
  "password_hash User_init = PyNone
   \<and> verify_password (\<lambda>h p. Inr False) User_init (PyStr ''secret'') = Inl AttributeError
   \<and> verify_password (\<lambda>h p. Inr False) User_init (PyStr ''secret'') \<noteq> Inr False"
  using verify_password_without_hash [of User_init "\<lambda>h p. Inr False" "PyStr ''secret''"]
  by (simp add: User_init_def)

subsection \<open>The username and email setters\<close>

lemma rests_One:
  "r \<in> set (rests (One a # items) s) \<longleftrightarrow>
     (\<exists>c t. s = c # t \<and> atom_ok a c \<and> r \<in> set (rests items t))"
  by (cases s) auto

lemma rests_OneOrMore:
  "r \<in> set (rests (OneOrMore a # items) s) \<longleftrightarrow>
     (\<exists>w t. s = w @ t \<and> w \<noteq> [] \<and> list_all (atom_ok a) w \<and> r \<in> set (rests items t))"
proof (induction s)
  case Nil
  then show ?case by simp
next
  case (Cons c cs)
  show ?case
  proof
    assume "r \<in> set (rests (OneOrMore a # items) (c # cs))"
    then have ok: "atom_ok a c"
      and "r \<in> set (rests (OneOrMore a # items) cs) \<or> r \<in> set (rests items cs)"
      by (auto split: if_splits)
    then show "\<exists>w t. c # cs = w @ t \<and> w \<noteq> [] \<and> list_all (atom_ok a) w
        \<and> r \<in> set (rests items t)"
    proof (elim disjE)
      assume "r \<in> set (rests (OneOrMore a # items) cs)"
      with Cons.IH obtain w t
        where "cs = w @ t" "list_all (atom_ok a) w" "r \<in> set (rests items t)"
        by blast
      with ok have "c # cs = (c # w) @ t \<and> c # w \<noteq> [] \<and> list_all (atom_ok a) (c # w)
          \<and> r \<in> set (rests items t)" by simp
      then show ?thesis by blast
    next
      assume "r \<in> set (rests items cs)"
      with ok have "c # cs = [c] @ cs \<and> [c] \<noteq> [] \<and> list_all (atom_ok a) [c]
          \<and> r \<in> set (rests items cs)" by simp
      then show ?thesis by blast
    qed
  next
    assume "\<exists>w t. c # cs = w @ t \<and> w \<noteq> [] \<and> list_all (atom_ok a) w
        \<and> r \<in> set (rests items t)"
    then obtain w t where wt: "c # cs = w @ t" "w \<noteq> []" "list_all (atom_ok a) w"
      "r \<in> set (rests items t)" by blast
    then obtain w' where w: "w = c # w'" "cs = w' @ t" by (cases w) auto
    with wt have ok: "atom_ok a c" "list_all (atom_ok a) w'" by auto
    show "r \<in> set (rests (OneOrMore a # items) (c # cs))"
    proof (cases "w' = []")
      case True
      with w wt ok show ?thesis by simp
    next
      case False
      with w wt ok Cons.IH have "r \<in> set (rests (OneOrMore a # items) cs)" by blast
      with ok show ?thesis by simp
    qed
  qed
qed

lemma atom_ok_NonSpace: "atom_ok NonSpace = (\<lambda>c. \<not> is_space c)"
  by (rule ext) simp

lemma rests_username:
  "r \<in> set (rests USERNAME_REGEX s) \<longleftrightarrow>
     (\<exists>w. s = w @ r \<and> w \<noteq> [] \<and> list_all (\<lambda>c. \<not> is_space c) w)"
  by (simp add: USERNAME_REGEX_def rests_OneOrMore atom_ok_NonSpace)

lemma rests_email:
  "r \<in> set (rests EMAIL_REGEX s) \<longleftrightarrow>
     (\<exists>a b c. s = a @ ''@'' @ b @ ''.'' @ c @ r \<and> a \<noteq> [] \<and> b \<noteq> [] \<and> c \<noteq> []
        \<and> list_all (\<lambda>x. \<not> is_space x) a \<and> list_all (\<lambda>x. \<not> is_space x) b
        \<and> list_all (\<lambda>x. \<not> is_space x) c)"
  by (simp add: EMAIL_REGEX_def rests_OneOrMore rests_One atom_ok_NonSpace) blast

lemma username_regex_match:
  "re_match USERNAME_REGEX (PyStr s) =
     Inr (\<exists>w. w \<noteq> [] \<and> list_all (\<lambda>c. \<not> is_space c) w \<and> (s = w \<or> s = w @ [CHR 0x0A]))"
proof -
  have "list_ex at_dollar (rests USERNAME_REGEX s) \<longleftrightarrow>
      ([] \<in> set (rests USERNAME_REGEX s) \<or> [CHR 0x0A] \<in> set (rests USERNAME_REGEX s))"
    by (auto simp: list_ex_iff at_dollar_def)
  also have "\<dots> \<longleftrightarrow>
      (\<exists>w. w \<noteq> [] \<and> list_all (\<lambda>c. \<not> is_space c) w \<and> (s = w \<or> s = w @ [CHR 0x0A]))"
    unfolding rests_username by simp blast
  finally show ?thesis by (simp add: re_match_def)
qed

lemma email_regex_match:
  "re_match EMAIL_REGEX (PyStr s) =
     Inr (\<exists>a b c. a \<noteq> [] \<and> b \<noteq> [] \<and> c \<noteq> []
            \<and> list_all (\<lambda>x. \<not> is_space x) a \<and> list_all (\<lambda>x. \<not> is_space x) b
            \<and> list_all (\<lambda>x. \<not> is_space x) c
            \<and> (s = a @ ''@'' @ b @ ''.'' @ c \<or> s = a @ ''@'' @ b @ ''.'' @ c @ [CHR 0x0A]))"
proof -
  have "list_ex at_dollar (rests EMAIL_REGEX s) \<longleftrightarrow>
      ([] \<in> set (rests EMAIL_REGEX s) \<or> [CHR 0x0A] \<in> set (rests EMAIL_REGEX s))"
    by (auto simp: list_ex_iff at_dollar_def)
  also have "\<dots> \<longleftrightarrow> (\<exists>a b c. a \<noteq> [] \<and> b \<noteq> [] \<and> c \<noteq> []
            \<and> list_all (\<lambda>x. \<not> is_space x) a \<and> list_all (\<lambda>x. \<not> is_space x) b
            \<and> list_all (\<lambda>x. \<not> is_space x) c
            \<and> (s = a @ ''@'' @ b @ ''.'' @ c \<or> s = a @ ''@'' @ b @ ''.'' @ c @ [CHR 0x0A]))"
    unfolding rests_email by simp blast
  finally show ?thesis by (simp add: re_match_def)
qed

text \<open>
  What the username setter accepts: a string of at most 64 characters that is one or
  more non-space characters, optionally followed by one newline. Such a string becomes
  the username; on every other string the setter raises ValueError and leaves the
  user as it was.
\<close>

theorem set_name_accepts:
  "set_name (PyStr s) u =
     (if length s \<le> 64
         \<and> (\<exists>w. w \<noteq> [] \<and> list_all (\<lambda>c. \<not> is_space c) w \<and> (s = w \<or> s = w @ [CHR 0x0A]))
      then (None, u\<lparr>username := PyStr s\<rparr>)
      else (Some ValueError, u))"
  by (auto simp: set_name_def check_length_def username_regex_match)

text \<open>
  What the email setter accepts: a string of at most 64 characters of the form
  a @ b . c, with a, b and c one or more non-space characters each, optionally
  followed by one newline.
\<close>

theorem set_emailaddress_accepts:
  "set_emailaddress (PyStr s) u =
     (if length s \<le> 64
         \<and> (\<exists>a b c. a \<noteq> [] \<and> b \<noteq> [] \<and> c \<noteq> []
               \<and> list_all (\<lambda>x. \<not> is_space x) a \<and> list_all (\<lambda>x. \<not> is_space x) b
               \<and> list_all (\<lambda>x. \<not> is_space x) c
               \<and> (s = a @ ''@'' @ b @ ''.'' @ c
                    \<or> s = a @ ''@'' @ b @ ''.'' @ c @ [CHR 0x0A]))
      then (None, u\<lparr>email := PyStr s\<rparr>)
      else (Some ValueError, u))"
  by (auto simp: set_emailaddress_def check_length_def email_regex_match)

text \<open>
  C7 at the username "abc" followed by a newline: the string contains whitespace (the
  newline), is not empty and has 4 characters, and the setter raises nothing and
  stores it.
\<close>

theorem set_name_trailing_newline:
  "is_space (CHR 0x0A)
   \<and> set_name (PyStr (''abc'' @ [CHR 0x0A])) u
       = (None, u\<lparr>username := PyStr (''abc'' @ [CHR 0x0A])\<rparr>)"
  by (simp add: set_name_def check_length_def re_match_def USERNAME_REGEX_def
      at_dollar_def is_space_def)

text \<open>
  C8 at the email "a@b.c" followed by a newline: the part after the dot is not made of
  non-space characters only (it ends in a newline), the string has 6 characters, and
  the setter raises nothing and stores it.
\<close>

theorem set_emailaddress_trailing_newline:
  "is_space (CHR 0x0A)
   \<and> set_emailaddress (PyStr (''a@b.c'' @ [CHR 0x0A])) u
       = (None, u\<lparr>email := PyStr (''a@b.c'' @ [CHR 0x0A])\<rparr>)"
  by (simp add: set_emailaddress_def check_length_def re_match_def EMAIL_REGEX_def
      at_dollar_def is_space_def)

subsection \<open>TodoList construction\<close>

text \<open>
  C9, as stated, fails: a TodoList constructed with the empty string as its title does
  not keep that title; it gets the default.
\<close>

theorem TodoList_init_empty_title_counterexample:
  "title (TodoList_init (PyStr []) PyNone None 0) \<noteq> PyStr []"
  by (simp add: TodoList_init_def py_or_def)

text \<open>
  C9, amended: constructing a TodoList with no title (\<open>None\<close>) or with an empty title
  yields the title "untitled"; constructing one with a non-empty title keeps that
  title exactly.
\<close>

theorem TodoList_init_title:
  "title (TodoList_init PyNone c at now) = PyStr ''untitled''
   \<and> title (TodoList_init (PyStr []) c at now) = PyStr ''untitled''
   \<and> (t \<noteq> [] \<longrightarrow> title (TodoList_init (PyStr t) c at now) = PyStr t)"
  by (simp add: TodoList_init_def py_or_def)

theorem TodoList_init_title_witness:
  "title (TodoList_init PyNone PyNone None 7) = PyStr ''untitled''
   \<and> title (TodoList_init (PyStr []) PyNone None 7) = PyStr ''untitled''
   \<and> ''groceries'' \<noteq> []
   \<and> title (TodoList_init (PyStr ''groceries'') PyNone None 7) = PyStr ''groceries''"
  using TodoList_init_title [of PyNone None 7 "''groceries''"] by simp


end
